theory Spec2Isabelle
  imports Complex_Main "HOL-Library.AList"
begin

section \<open>Python values\<close>

text \<open>
  The interview agent is a Python program. Its floats are modelled by the rational number
  they denote, together with the three special values a float can take; the representation
  error of binary floating point is not modelled. Comparisons with \<open>NaN\<close> are false, as in
  Python.
\<close>

datatype pyfloat = Finite rat | PosInf | NegInf | NaN

fun pf_less :: "pyfloat \<Rightarrow> pyfloat \<Rightarrow> bool" where
  "pf_less (Finite a) (Finite b) = (a < b)"
| "pf_less (Finite a) PosInf = True"
| "pf_less NegInf (Finite b) = True"
| "pf_less NegInf PosInf = True"
| "pf_less _ _ = False"

definition pf_greater :: "pyfloat \<Rightarrow> pyfloat \<Rightarrow> bool" where
  "pf_greater x y = pf_less y x"

text \<open>\<open>min(a, b)\<close> and \<open>max(a, b)\<close> return the first argument unless the second is strictly better.\<close>

definition py_min :: "pyfloat \<Rightarrow> pyfloat \<Rightarrow> pyfloat" where
  "py_min a b = (if pf_less b a then b else a)"

definition py_max :: "pyfloat \<Rightarrow> pyfloat \<Rightarrow> pyfloat" where
  "py_max a b = (if pf_greater b a then b else a)"

text \<open>\<open>round(x, 2)\<close>: to the nearest multiple of 1/100, a tie going to the even neighbour.\<close>

definition round_half_even :: "rat \<Rightarrow> int" where
  "round_half_even x =
     (let f = \<lfloor>x\<rfloor>; d = x - of_int f
      in if d < 1 / 2 then f else if 1 / 2 < d then f + 1 else if even f then f else f + 1)"

definition round2 :: "rat \<Rightarrow> rat" where
  "round2 x = of_int (round_half_even (x * 100)) / 100"

fun py_round2 :: "pyfloat \<Rightarrow> pyfloat" where
  "py_round2 (Finite x) = Finite (round2 x)"
| "py_round2 x = x"


text \<open>The values \<open>json.loads\<close> produces; an object keeps its keys in order.\<close>

datatype json =
    JNull
  | JBool bool
  | JInt int
  | JFloat pyfloat
  | JStr string
  | JList "json list"
  | JObj "(string \<times> json) list"

datatype py_exception =
    JSONDecodeError
  | ValueError
  | TypeError
  | OverflowError
  | IndexError
  | KeyError string
  | ZeroDivisionError
  | UnboundLocalError
  | ModelCallError

text \<open>\<open>json.JSONDecodeError\<close> is a subclass of \<open>ValueError\<close>; these two are what the clause
  \<open>except (json.JSONDecodeError, ValueError)\<close> catches.\<close>

definition is_value_error :: "py_exception \<Rightarrow> bool" where
  "is_value_error e = (e = JSONDecodeError \<or> e = ValueError)"

text \<open>An entry of the interview history, and the data handed to the report renderer.\<close>

record history_entry =
  question :: string
  answer :: string
  rating :: pyfloat
  strengths :: string
  improvements :: string
  missing_points :: string

record report_data =
  report_role :: string
  report_difficulty :: string
  report_model :: string
  report_language :: string
  num_questions :: nat
  report_history :: "history_entry list"
  overall_summary :: string
  avg_rating :: pyfloat

text \<open>
  Library functions the program calls and does not define: \<open>json.loads\<close> (\<open>None\<close> is a
  \<open>JSONDecodeError\<close>), \<open>float\<close> of a string (\<open>None\<close> is a \<open>ValueError\<close>), \<open>str\<close> of a
  value that is not a string, and the PDF renderer built on the FPDF library (it returns the
  bytes of the document or raises). Every theorem holds for all of them.
\<close>

record runtime =
  json_loads :: "string \<Rightarrow> json option"
  float_of_str :: "string \<Rightarrow> pyfloat option"
  repr :: "json \<Rightarrow> string"
  generate_pdf_report :: "report_data \<Rightarrow> py_exception + string"

definition py_str :: "runtime \<Rightarrow> json \<Rightarrow> string" where
  "py_str rt v = (case v of JStr s \<Rightarrow> s | _ \<Rightarrow> repr rt v)"

definition and_then :: "'e + 'a \<Rightarrow> ('a \<Rightarrow> 'e + 'b) \<Rightarrow> 'e + 'b" where
  "and_then r f = (case r of Inl e \<Rightarrow> Inl e | Inr x \<Rightarrow> f x)"

text \<open>\<open>float(n)\<close> of an integer overflows when \<open>n\<close> rounds to \<open>2 ^ 1024\<close> or beyond.\<close>

definition float_of_int :: "int \<Rightarrow> py_exception + pyfloat" where
  "float_of_int n =
     (if \<bar>n\<bar> \<ge> 2 ^ 1024 - 2 ^ 970 then Inl OverflowError else Inr (Finite (of_int n)))"

definition py_float :: "runtime \<Rightarrow> json \<Rightarrow> py_exception + pyfloat" where
  "py_float rt v =
     (case v of
        JFloat x \<Rightarrow> Inr x
      | JInt n \<Rightarrow> float_of_int n
      | JBool b \<Rightarrow> Inr (Finite (if b then 1 else 0))
      | JStr s \<Rightarrow> (case float_of_str rt s of None \<Rightarrow> Inl ValueError | Some x \<Rightarrow> Inr x)
      | _ \<Rightarrow> Inl TypeError)"

section \<open>Python strings\<close>

text \<open>
  A string is a list of characters with code points below 256. Whitespace and lower-casing
  are those of Python's \<open>str\<close> on these code points.
\<close>

definition isspace :: "char \<Rightarrow> bool" where
  "isspace c = (let n = (of_char c :: nat)
                in (9 \<le> n \<and> n \<le> 13) \<or> (28 \<le> n \<and> n \<le> 32) \<or> n = 133 \<or> n = 160)"

definition strip :: "string \<Rightarrow> string" where
  "strip s = rev (dropWhile isspace (rev (dropWhile isspace s)))"

definition lower_char :: "char \<Rightarrow> char" where
  "lower_char c = (let n = (of_char c :: nat)
                   in if (65 \<le> n \<and> n \<le> 90) \<or> (192 \<le> n \<and> n \<le> 222 \<and> n \<noteq> 215)
                      then char_of (n + 32) else c)"

definition lower :: "string \<Rightarrow> string" where
  "lower s = map lower_char s"

fun startswith :: "string \<Rightarrow> string \<Rightarrow> bool" where
  "startswith s [] = True"
| "startswith [] (p # ps) = False"
| "startswith (c # cs) (p # ps) = (c = p \<and> startswith cs ps)"

definition endswith :: "string \<Rightarrow> string \<Rightarrow> bool" where
  "endswith s x = startswith (rev s) (rev x)"

text \<open>\<open>needle in hay\<close>\<close>

fun contains :: "string \<Rightarrow> string \<Rightarrow> bool" where
  "contains [] needle = (needle = [])"
| "contains (c # cs) needle = (startswith (c # cs) needle \<or> contains cs needle)"

text \<open>\<open>s.split()\<close>: the maximal runs of characters that are not whitespace.\<close>

fun split_words :: "string \<Rightarrow> string \<Rightarrow> string list" where
  "split_words acc [] = (if acc = [] then [] else [rev acc])"
| "split_words acc (c # cs) =
     (if isspace c then (if acc = [] then split_words [] cs else rev acc # split_words [] cs)
      else split_words (c # acc) cs)"

definition split_ws :: "string \<Rightarrow> string list" where
  "split_ws s = split_words [] s"

text \<open>\<open>s.split(sep)\<close> for a separator that is not empty: cut at each occurrence, left to right.\<close>

fun split_from :: "string \<Rightarrow> string \<Rightarrow> string \<Rightarrow> string list" where
  "split_from sep acc [] = [rev acc]"
| "split_from sep acc (c # cs) =
     (case sep of
        [] \<Rightarrow> split_from sep (c # acc) cs
      | p # ps \<Rightarrow>
          if c = p \<and> startswith cs ps then rev acc # split_from sep [] (drop (length ps) cs)
          else split_from sep (c # acc) cs)"

definition split_sep :: "string \<Rightarrow> string \<Rightarrow> string list" where
  "split_sep s sep = split_from sep [] s"

definition py_index :: "'a list \<Rightarrow> nat \<Rightarrow> py_exception + 'a" where
  "py_index xs i = (if i < length xs then Inr (xs ! i) else Inl IndexError)"

text \<open>\<open>s.rfind(c)\<close> for a single character: the last index of \<open>c\<close>, or \<open>-1\<close>.\<close>

fun rfind_from :: "nat \<Rightarrow> int \<Rightarrow> string \<Rightarrow> char \<Rightarrow> int" where
  "rfind_from i found [] c = found"
| "rfind_from i found (x # xs) c = rfind_from (Suc i) (if x = c then int i else found) xs c"

definition rfind :: "string \<Rightarrow> char \<Rightarrow> int" where
  "rfind s c = rfind_from 0 (- 1) s c"

text \<open>\<open>s[0:e]\<close>: a negative end counts from the end of the string.\<close>

definition slice_to :: "string \<Rightarrow> int \<Rightarrow> string" where
  "slice_to s e = (if e < 0 then take (nat (int (length s) + e)) s else take (nat e) s)"

text \<open>\<open>s.rfind(c, 0, e)\<close>\<close>

definition rfind_before :: "string \<Rightarrow> char \<Rightarrow> int \<Rightarrow> int" where
  "rfind_before s c e = rfind (slice_to s e) c"

section \<open>The interview agent (langchain\_agent.py)\<close>

datatype template =
    RESUME_SUMMARY_PROMPT
  | QUESTION_GENERATION_PROMPT_EN
  | QUESTION_GENERATION_PROMPT_HI
  | EVALUATION_PROMPT_EN_GEMINI
  | EVALUATION_PROMPT_EN_OPENROUTER
  | EVALUATION_PROMPT_HI_GEMINI
  | EVALUATION_PROMPT_HI_OPENROUTER
  | OVERALL_SUMMARY_PROMPT

text \<open>A prompt is a template of prompts.py with the keyword arguments of \<open>format\<close>.\<close>

datatype prompt = Prompt template "(string \<times> string) list"


text \<open>
  The language model is outside the program: \<open>llm k p\<close> is what the \<open>k\<close>-th call of
  \<open>llm.invoke\<close> on a client answers to the prompt \<open>p\<close>, a text or an exception. The agent
  counts its calls in \<open>invocations\<close>.
\<close>

datatype llm_response = Content string | Raises py_exception

type_synonym llm = "nat \<Rightarrow> prompt \<Rightarrow> llm_response"

datatype message = HumanMessage string | AIMessage string

datatype llm_client = ChatGoogleGenerativeAI string | ChatOpenAI string

record agent =
  agent_model_id :: string
  agent_language :: string
  client :: llm_client
  memory :: "message list"
  invocations :: nat

definition initialize_llm :: "string \<Rightarrow> llm_client" where
  "initialize_llm m =
     (if contains (lower m) ''gemini''
      then (if startswith m ''models/'' then ChatGoogleGenerativeAI m
            else ChatGoogleGenerativeAI (''models/'' @ m))
      else ChatOpenAI m)"

definition InterviewAgent :: "string \<Rightarrow> string \<Rightarrow> agent" where
  "InterviewAgent m lang =
     \<lparr>agent_model_id = m, agent_language = lang, client = initialize_llm m,
      memory = [], invocations = 0\<rparr>"

definition invoke :: "llm \<Rightarrow> agent \<Rightarrow> prompt \<Rightarrow> llm_response \<times> agent" where
  "invoke llm ag p = (llm (invocations ag) p, ag\<lparr>invocations := Suc (invocations ag)\<rparr>)"

definition manage_memory_threshold :: "agent \<Rightarrow> agent" where
  "manage_memory_threshold ag =
     (let messages = memory ag
      in if length messages > 20 then ag\<lparr>memory := drop 10 messages\<rparr> else ag)"

definition fmt_float :: "runtime \<Rightarrow> pyfloat \<Rightarrow> string" where
  "fmt_float rt x = repr rt (JFloat x)"

definition fmt_int :: "runtime \<Rightarrow> nat \<Rightarrow> string" where
  "fmt_int rt n = repr rt (JInt (int n))"

fun format_entries :: "runtime \<Rightarrow> nat \<Rightarrow> history_entry list \<Rightarrow> string" where
  "format_entries rt i [] = []"
| "format_entries rt i (e # es) =
     ''Q'' @ fmt_int rt i @ '': '' @ question e @ [CHR 0x0A] @
     ''A'' @ fmt_int rt i @ '': '' @ answer e @ '' (Rating: '' @ fmt_float rt (rating e) @
     ''/10)'' @ [CHR 0x0A, CHR 0x0A] @ format_entries rt (Suc i) es"

definition format_history :: "runtime \<Rightarrow> history_entry list \<Rightarrow> string" where
  "format_history rt history =
     (if history = [] then ''No previous questions asked yet.''
      else strip (format_entries rt 1 history))"

definition question_template :: "string \<Rightarrow> template" where
  "question_template lang =
     (if lang = ''hi'' then QUESTION_GENERATION_PROMPT_HI else QUESTION_GENERATION_PROMPT_EN)"

definition generate_question ::
  "runtime \<Rightarrow> llm \<Rightarrow> agent \<Rightarrow> string \<Rightarrow> string \<Rightarrow> string \<Rightarrow> history_entry list
     \<Rightarrow> (py_exception + string) \<times> agent" where
  "generate_question rt llm ag summary rl diff history =
     (let ag1 = manage_memory_threshold ag;
          prompt_template = question_template (agent_language ag1);
          history_text = format_history rt history;
          last_rating = (if history = [] then ''N/A'' else fmt_float rt (rating (last history)));
          p = Prompt prompt_template
                [(''resume_summary'', summary), (''role'', rl), (''difficulty'', diff),
                 (''history'', history_text), (''last_rating'', last_rating)]
      in case invoke llm ag1 p of
           (Raises e, ag2) \<Rightarrow> (Inl e, ag2)
         | (Content c, ag2) \<Rightarrow>
             (let q = strip c
              in (Inr q, ag2\<lparr>memory := memory ag2 @ [HumanMessage (''Generated question: '' @ q)]\<rparr>)))"

subsection \<open>Cleaning the model's text\<close>

definition strip_code_fences :: "string \<Rightarrow> py_exception + string" where
  "strip_code_fences result =
     (if contains result ''```json''
      then and_then (py_index (split_sep result ''```json'') 1)
             (\<lambda>a. and_then (py_index (split_sep a ''```'') 0) (\<lambda>b. Inr (strip b)))
      else if contains result ''```''
      then and_then (py_index (split_sep result ''```'') 1)
             (\<lambda>a. and_then (py_index (split_sep a ''```'') 0) (\<lambda>b. Inr (strip b)))
      else Inr result)"

definition dquote :: char where
  "dquote = CHR 0x22"

definition repair_truncated :: "string \<Rightarrow> string" where
  "repair_truncated result =
     (if endswith result ''...'' \<or> \<not> endswith result ''}''
      then
        let open_braces = int (count_list result CHR ''{'') - int (count_list result CHR ''}'');
            result1 =
              (if contains result ''...''
               then let last_comma = rfind result CHR '','';
                        last_quote = rfind_before result dquote last_comma
                    in if last_quote > 0 then take (nat (last_quote + 1)) result else result
               else result);
            result2 =
              (if count_list result1 dquote mod 2 \<noteq> 0 then result1 @ [dquote] else result1)
        in result2 @ replicate (nat open_braces) CHR ''}''
      else result)"

subsection \<open>Validating the parsed value\<close>

text \<open>\<open>key in v\<close>, \<open>v[key]\<close> and \<open>v[key] = x\<close> for a string key and any parsed value \<open>v\<close>.\<close>

definition py_in :: "string \<Rightarrow> json \<Rightarrow> py_exception + bool" where
  "py_in k v =
     (case v of
        JObj d \<Rightarrow> Inr (map_of d k \<noteq> None)
      | JList xs \<Rightarrow> Inr (JStr k \<in> set xs)
      | JStr s \<Rightarrow> Inr (contains s k)
      | _ \<Rightarrow> Inl TypeError)"

definition py_getitem :: "json \<Rightarrow> string \<Rightarrow> py_exception + json" where
  "py_getitem v k =
     (case v of
        JObj d \<Rightarrow> (case map_of d k of None \<Rightarrow> Inl (KeyError k) | Some x \<Rightarrow> Inr x)
      | _ \<Rightarrow> Inl TypeError)"

definition py_setitem :: "json \<Rightarrow> string \<Rightarrow> json \<Rightarrow> py_exception + json" where
  "py_setitem v k x =
     (case v of JObj d \<Rightarrow> Inr (JObj (AList.update k x d)) | _ \<Rightarrow> Inl TypeError)"

fun join :: "string \<Rightarrow> string list \<Rightarrow> string" where
  "join sep [] = []"
| "join sep [x] = x"
| "join sep (x # y # ys) = x @ sep @ join sep (y # ys)"

definition normalize_missing_points :: "runtime \<Rightarrow> json \<Rightarrow> py_exception + json" where
  "normalize_missing_points rt evaluation =
     and_then (py_in ''missing_points'' evaluation) (\<lambda>present.
       if present
       then and_then (py_getitem evaluation ''missing_points'') (\<lambda>mp.
              case mp of
                JList items \<Rightarrow>
                  py_setitem evaluation ''missing_points'' (JStr (join '', '' (map (py_str rt) items)))
              | JStr s \<Rightarrow> Inr evaluation
              | _ \<Rightarrow> py_setitem evaluation ''missing_points'' (JStr (py_str rt mp)))
       else Inr evaluation)"

definition required_fields :: "string list" where
  "required_fields = [''rating'', ''strengths'', ''improvements'']"

fun check_required :: "string list \<Rightarrow> json \<Rightarrow> py_exception + unit" where
  "check_required [] evaluation = Inr ()"
| "check_required (fld # flds) evaluation =
     and_then (py_in fld evaluation) (\<lambda>present.
       if \<not> present then Inl ValueError else check_required flds evaluation)"

definition default_missing_points :: "json \<Rightarrow> py_exception + json" where
  "default_missing_points evaluation =
     and_then (py_in ''missing_points'' evaluation) (\<lambda>present.
       if \<not> present then py_setitem evaluation ''missing_points'' (JStr ''N/A'')
       else Inr evaluation)"

text \<open>Lines 250 to 255: coerce the rating to a float, clamp it, round it.\<close>

definition clamp_rating :: "pyfloat \<Rightarrow> pyfloat" where
  "clamp_rating r =
     (if pf_less r (Finite 1) \<or> pf_greater r (Finite 10)
      then py_max (Finite 1) (py_min (Finite 10) r) else r)"

definition fix_rating :: "runtime \<Rightarrow> json \<Rightarrow> py_exception + pyfloat" where
  "fix_rating rt v =
     and_then (py_float rt v) (\<lambda>r. Inr (py_round2 (clamp_rating r)))"

definition set_stripped :: "runtime \<Rightarrow> string \<Rightarrow> json \<Rightarrow> py_exception + json" where
  "set_stripped rt k evaluation =
     and_then (py_getitem evaluation k) (\<lambda>v. py_setitem evaluation k (JStr (strip (py_str rt v))))"

definition process_evaluation :: "runtime \<Rightarrow> json \<Rightarrow> py_exception + json" where
  "process_evaluation rt parsed =
     and_then (normalize_missing_points rt parsed) (\<lambda>ev1.
     and_then (check_required required_fields ev1) (\<lambda>_.
     and_then (default_missing_points ev1) (\<lambda>ev2.
     and_then (py_getitem ev2 ''rating'') (\<lambda>raw.
     and_then (fix_rating rt raw) (\<lambda>r.
     and_then (py_setitem ev2 ''rating'' (JFloat r)) (\<lambda>ev3.
     and_then (set_stripped rt ''strengths'' ev3) (\<lambda>ev4.
     and_then (set_stripped rt ''improvements'' ev4) (\<lambda>ev5.
     set_stripped rt ''missing_points'' ev5))))))))"

text \<open>The body of the \<open>try\<close> block once the model has answered: the evaluation and the
  message stored in the conversation memory.\<close>

definition parse_response :: "runtime \<Rightarrow> string \<Rightarrow> py_exception + json \<times> message" where
  "parse_response rt content =
     and_then (strip_code_fences (strip content)) (\<lambda>result.
       case json_loads rt (repair_truncated result) of
         None \<Rightarrow> Inl JSONDecodeError
       | Some parsed \<Rightarrow>
           and_then (process_evaluation rt parsed) (\<lambda>evaluation.
           and_then (py_getitem evaluation ''rating'') (\<lambda>r.
             Inr (evaluation,
                  AIMessage (''Answer evaluated: Rating '' @ py_str rt r @ ''/10'')))))"

subsection \<open>The fallback and the retry loop\<close>

definition dont_know_phrases :: "string list" where
  "dont_know_phrases =
     [''i dont know'', ''i don'' @ [CHR 0x27] @ ''t know'', ''idk'', ''no idea'', ''dont know'',
      ''don'' @ [CHR 0x27] @ ''t know'', ''not sure'', ''no clue'']"

definition fallback_record :: "rat \<Rightarrow> string \<Rightarrow> string \<Rightarrow> json" where
  "fallback_record fallback_rating fallback_strengths fallback_improvements =
     JObj [(''rating'', JFloat (Finite fallback_rating)),
           (''strengths'', JStr fallback_strengths),
           (''improvements'', JStr fallback_improvements),
           (''missing_points'',
            JStr ''Unable to parse detailed feedback from evaluation system'')]"

definition fallback_evaluation :: "string \<Rightarrow> json" where
  "fallback_evaluation ans =
     (let answer_lower = strip (lower ans);
          answer_length = length (split_ws ans);
          is_dont_know = list_ex (\<lambda>phrase. contains answer_lower phrase) dont_know_phrases
      in if is_dont_know \<or> answer_length < 3
         then fallback_record (3 / 2) ''Candidate was honest about not knowing''
                ''Study the topic and provide a substantive answer''
         else if answer_length < 10
         then fallback_record 3 ''Brief attempt at answering''
                ''Provide more detailed explanation with examples''
         else if answer_length < 30
         then fallback_record 5 ''Provided some relevant information''
                ''Expand on concepts and add more depth''
         else fallback_record 6 ''Detailed response provided''
                ''Structure could be improved for clarity'')"

definition max_retries :: nat where
  "max_retries = 2"

text \<open>
  The loop \<open>for attempt in range(max_retries)\<close>. The flag says whether the variable
  \<open>result\<close> is bound: the handler of a parsing error prints it, and fails with
  \<open>UnboundLocalError\<close> when no call of the model has returned yet. A loop that ends without
  a \<open>return\<close> makes the function return \<open>None\<close>.
\<close>

fun evaluate_attempts ::
  "runtime \<Rightarrow> llm \<Rightarrow> prompt \<Rightarrow> string \<Rightarrow> nat list \<Rightarrow> bool \<Rightarrow> agent
     \<Rightarrow> (py_exception + json option) \<times> agent" where
  "evaluate_attempts rt llm p ans [] bound ag = (Inr None, ag)"
| "evaluate_attempts rt llm p ans (attempt # rest) bound ag =
     (case invoke llm ag p of (response, ag1) \<Rightarrow>
        (case (case response of
                 Raises e \<Rightarrow> (Inl e, bound)
               | Content c \<Rightarrow> (parse_response rt c, True)) of
           (Inr (evaluation, msg), _) \<Rightarrow>
             (Inr (Some evaluation), ag1\<lparr>memory := memory ag1 @ [msg]\<rparr>)
         | (Inl e, bound1) \<Rightarrow>
             if is_value_error e
             then (if \<not> bound1 then (Inl UnboundLocalError, ag1)
                   else if attempt = max_retries - 1
                   then (Inr (Some (fallback_evaluation ans)), ag1)
                   else evaluate_attempts rt llm p ans rest bound1 ag1)
             else if attempt = max_retries - 1 then (Inl e, ag1)
             else evaluate_attempts rt llm p ans rest bound1 ag1))"

definition evaluation_template :: "string \<Rightarrow> string \<Rightarrow> template" where
  "evaluation_template lang m =
     (let is_gemini = contains (lower m) ''gemini''
      in if lang = ''hi''
         then (if is_gemini then EVALUATION_PROMPT_HI_GEMINI else EVALUATION_PROMPT_HI_OPENROUTER)
         else (if is_gemini then EVALUATION_PROMPT_EN_GEMINI else EVALUATION_PROMPT_EN_OPENROUTER))"

definition evaluate_answer ::
  "runtime \<Rightarrow> llm \<Rightarrow> agent \<Rightarrow> string \<Rightarrow> string \<Rightarrow> (py_exception + json option) \<times> agent" where
  "evaluate_answer rt llm ag q ans =
     (let prompt_template = evaluation_template (agent_language ag) (agent_model_id ag);
          p = Prompt prompt_template [(''question'', q), (''answer'', ans)]
      in evaluate_attempts rt llm p ans [0..<max_retries] False ag)"

subsection \<open>The overall summary\<close>





section \<open>The web application (app.py)\<close>

text \<open>
  The Flask session is a dictionary; a key that is absent is \<open>None\<close>. The bodies of the
  requests are typed: a field that is present holds a value of the type the client sends.
  Building the client of the language model is assumed to succeed; the provider fails, if
  it does, when it is invoked.
\<close>

record session =
  resume_summary :: "string option"
  api_keys :: "(string option \<times> string option) option"
  role :: "string option"
  difficulty :: "string option"
  model_id :: "string option"
  language :: "string option"
  stt_mode :: "string option"
  hinglish_mode :: "bool option"
  interview_history :: "history_entry list option"
  question_count :: "int option"
  current_question :: "string option"
  last_rating :: "pyfloat option"

definition session_clear :: session where
  "session_clear =
     \<lparr>resume_summary = None, api_keys = None, role = None, difficulty = None, model_id = None,
      language = None, stt_mode = None, hinglish_mode = None, interview_history = None,
      question_count = None, current_question = None, last_rating = None\<rparr>"

text \<open>A response is the payload of a 200 answer, or a status with an error. An error made
  from a caught exception keeps the exception.\<close>

datatype error_body = Message string | Caught string py_exception

datatype 'a response = Success 'a | Failure nat error_body

subsection \<open>/api/start-interview\<close>

record start_request =
  req_role :: "string option"
  req_difficulty :: "string option"
  req_model_id :: "string option"
  req_language :: "string option"
  req_stt_mode :: "string option"
  req_hinglish_mode :: "bool option"

record interview_config =
  config_role :: string
  config_difficulty :: string
  config_model :: string
  config_language :: string

definition start_interview ::
  "session \<Rightarrow> start_request \<Rightarrow> interview_config response \<times> session" where
  "start_interview s data =
     (case req_role data of
        None \<Rightarrow> (Failure 400 (Message ''Missing required field: role''), s)
      | Some r \<Rightarrow>
     (case req_difficulty data of
        None \<Rightarrow> (Failure 400 (Message ''Missing required field: difficulty''), s)
      | Some d \<Rightarrow>
     (case req_model_id data of
        None \<Rightarrow> (Failure 400 (Message ''Missing required field: model_id''), s)
      | Some m \<Rightarrow>
     (case req_language data of
        None \<Rightarrow> (Failure 400 (Message ''Missing required field: language''), s)
      | Some l \<Rightarrow>
          if resume_summary s = None
          then (Failure 400 (Message ''Please upload a resume first''), s)
          else
            let hinglish = (case req_hinglish_mode data of None \<Rightarrow> False | Some b \<Rightarrow> b);
                s1 = s\<lparr>role := Some r, difficulty := Some d, model_id := Some m,
                       language := Some l,
                       stt_mode := Some (case req_stt_mode data of
                                           None \<Rightarrow> ''browser'' | Some x \<Rightarrow> x),
                       hinglish_mode := Some hinglish\<rparr>;
                s2 = (if hinglish then s1\<lparr>language := Some ''hi''\<rparr> else s1);
                s3 = s2\<lparr>interview_history := Some [], question_count := Some 0\<rparr>
            in (Success \<lparr>config_role = r, config_difficulty = d, config_model = m,
                         config_language = (if hinglish then ''hi'' else l)\<rparr>,
                s3)))))"

subsection \<open>/api/next-question\<close>

record question_reply =
  reply_question :: string
  question_number :: int
  reply_language :: string

definition shown_language :: "session \<Rightarrow> string \<Rightarrow> string" where
  "shown_language s lang = (if hinglish_mode s = Some True then ''hinglish'' else lang)"

definition missing_key :: "string \<Rightarrow> error_body" where
  "missing_key k = Message (''Session expired or incomplete. Missing: '' @ k)"

definition get_next_question ::
  "runtime \<Rightarrow> llm \<Rightarrow> session \<Rightarrow> question_reply response \<times> session" where
  "get_next_question rt llm s =
     (case resume_summary s of
        None \<Rightarrow> (Failure 400 (missing_key ''resume_summary''), s)
      | Some summary \<Rightarrow>
     (case role s of
        None \<Rightarrow> (Failure 400 (missing_key ''role''), s)
      | Some rl \<Rightarrow>
     (case difficulty s of
        None \<Rightarrow> (Failure 400 (missing_key ''difficulty''), s)
      | Some diff \<Rightarrow>
     (case model_id s of
        None \<Rightarrow> (Failure 400 (missing_key ''model_id''), s)
      | Some m \<Rightarrow>
     (case language s of
        None \<Rightarrow> (Failure 400 (missing_key ''language''), s)
      | Some lang \<Rightarrow>
     (case api_keys s of
        None \<Rightarrow> (Failure 400 (missing_key ''api_keys''), s)
      | Some keys \<Rightarrow>
          (case fst (generate_question rt llm (InterviewAgent m lang) summary rl diff
                       (case interview_history s of None \<Rightarrow> [] | Some h \<Rightarrow> h)) of
             Inl e \<Rightarrow> (Failure 500 (Caught ''Failed to generate question'' e), s)
           | Inr q \<Rightarrow>
               (let n = (case question_count s of None \<Rightarrow> 0 | Some k \<Rightarrow> k) + 1;
                    s1 = s\<lparr>current_question := Some q, question_count := Some n\<rparr>
                in (Success \<lparr>reply_question = q, question_number = n,
                             reply_language = shown_language s1 lang\<rparr>,
                    s1)))))))))"

subsection \<open>/api/evaluate\<close>

text \<open>\<open>difficulty_order.index(current_difficulty)\<close> raises \<open>ValueError\<close> for a string that is
  not in the list.\<close>

definition difficulty_order :: "string list" where
  "difficulty_order = [''Easy'', ''Medium'', ''Hard'']"

fun index_of :: "'a list \<Rightarrow> 'a \<Rightarrow> py_exception + nat" where
  "index_of [] x = Inl ValueError"
| "index_of (y # ys) x =
     (if y = x then Inr 0 else and_then (index_of ys x) (\<lambda>i. Inr (Suc i)))"

text \<open>The adaptive difficulty logic, lines 351 to 369.\<close>

definition next_difficulty :: "string \<Rightarrow> pyfloat \<Rightarrow> py_exception + string" where
  "next_difficulty current_difficulty r =
     and_then (index_of difficulty_order current_difficulty) (\<lambda>current_index.
       Inr (if pf_greater r (Finite 7)
            then (if current_index < length difficulty_order - 1
                  then difficulty_order ! (current_index + 1) else current_difficulty)
            else if pf_less r (Finite 4)
            then (if current_index > 0
                  then difficulty_order ! (current_index - 1) else current_difficulty)
            else current_difficulty))"

text \<open>
  The history entry built from the evaluation. The agent returns a float rating and
  string feedback on every path, which is what the typed entry records; another shape
  is reported as a \<open>TypeError\<close>.
\<close>

definition history_entry_of :: "string \<Rightarrow> string \<Rightarrow> json \<Rightarrow> py_exception + history_entry" where
  "history_entry_of q ans ev =
     and_then (py_getitem ev ''rating'') (\<lambda>r.
     and_then (py_getitem ev ''strengths'') (\<lambda>st.
     and_then (py_getitem ev ''improvements'') (\<lambda>im.
       let mp = (case py_getitem ev ''missing_points'' of
                   Inr v \<Rightarrow> v | Inl _ \<Rightarrow> JStr [])
       in case (r, st, im, mp) of
            (JFloat x, JStr a, JStr b, JStr c) \<Rightarrow>
              Inr \<lparr>question = q, answer = ans, rating = x, strengths = a,
                   improvements = b, missing_points = c\<rparr>
          | _ \<Rightarrow> Inl TypeError)))"

record evaluate_reply =
  evaluation :: json
  updated_difficulty :: string
  previous_difficulty :: string
  total_questions :: nat
  evaluate_language :: string

text \<open>The \<open>try\<close> block of the route. What it has stored in the session before an exception
  stays stored.\<close>

definition evaluate_body ::
  "runtime \<Rightarrow> llm \<Rightarrow> session \<Rightarrow> string \<Rightarrow> string \<Rightarrow> (py_exception + evaluate_reply) \<times> session"
  where
  "evaluate_body rt llm s q ans =
     (case model_id s of
        None \<Rightarrow> (Inl (KeyError ''model_id''), s)
      | Some m \<Rightarrow>
     (case api_keys s of
        None \<Rightarrow> (Inl (KeyError ''api_keys''), s)
      | Some keys \<Rightarrow>
     (case language s of
        None \<Rightarrow> (Inl (KeyError ''language''), s)
      | Some lang \<Rightarrow>
     (case fst (evaluate_answer rt llm (InterviewAgent m lang) q ans) of
        Inl e \<Rightarrow> (Inl e, s)
      | Inr None \<Rightarrow> (Inl TypeError, s)
      | Inr (Some ev) \<Rightarrow>
     (case history_entry_of q ans ev of
        Inl e \<Rightarrow> (Inl e, s)
      | Inr entry \<Rightarrow>
          (let s1 = s\<lparr>interview_history :=
                        Some ((case interview_history s of None \<Rightarrow> [] | Some h \<Rightarrow> h) @ [entry])\<rparr>;
               s2 = s1\<lparr>last_rating := Some (rating entry)\<rparr>
           in case difficulty s2 of
                None \<Rightarrow> (Inl (KeyError ''difficulty''), s2)
              | Some current_difficulty \<Rightarrow>
                  (case next_difficulty current_difficulty (rating entry) of
                     Inl e \<Rightarrow> (Inl e, s2)
                   | Inr new_difficulty \<Rightarrow>
                       (let s3 = s2\<lparr>difficulty := Some new_difficulty\<rparr>
                        in (Inr \<lparr>evaluation = ev, updated_difficulty = new_difficulty,
                                 previous_difficulty = current_difficulty,
                                 total_questions =
                                   length (case interview_history s3 of
                                             None \<Rightarrow> [] | Some h \<Rightarrow> h),
                                 evaluate_language = shown_language s3 lang\<rparr>,
                            s3)))))))))"

definition evaluate_answer_route ::
  "runtime \<Rightarrow> llm \<Rightarrow> session \<Rightarrow> string option \<Rightarrow> evaluate_reply response \<times> session" where
  "evaluate_answer_route rt llm s data =
     (case data of
        None \<Rightarrow> (Failure 400 (Message ''No answer provided''), s)
      | Some ans \<Rightarrow>
          (case current_question s of
             None \<Rightarrow> (Failure 400 (Message ''No active question to evaluate''), s)
           | Some q \<Rightarrow>
               (case evaluate_body rt llm s q ans of
                  (Inl e, s1) \<Rightarrow> (Failure 500 (Caught ''Evaluation failed'' e), s1)
                | (Inr reply, s1) \<Rightarrow> (Success reply, s1))))"

subsection \<open>/api/report and /api/end-session\<close>



definition end_session :: "session \<Rightarrow> session" where
  "end_session s = session_clear"

section \<open>Properties\<close>

subsection \<open>Predicates and sample inputs\<close>

fun rating_in_range :: "pyfloat \<Rightarrow> bool" where
  "rating_in_range (Finite x) = (1 \<le> x \<and> x \<le> 10)"
| "rating_in_range x = False"





text \<open>Sample texts of the model, and \<open>json.loads\<close> on them.\<close>

definition text_good :: string where
  \<open>text_good = ''{"rating": 8.2, "strengths": "clear", "improvements": "depth"}''\<close>

definition text_five :: string where
  "text_five = ''5''"

definition text_nan :: string where
  \<open>text_nan = ''{"rating": NaN, "strengths": "clear", "improvements": "depth"}''\<close>

definition sample_json_loads :: "string \<Rightarrow> json option" where
  "sample_json_loads s =
     (if s = text_good
      then Some (JObj [(''rating'', JFloat (Finite (41 / 5))), (''strengths'', JStr ''clear''),
                       (''improvements'', JStr ''depth'')])
      else if s = text_five then Some (JInt 5)
      else if s = text_nan
      then Some (JObj [(''rating'', JFloat NaN), (''strengths'', JStr ''clear''),
                       (''improvements'', JStr ''depth'')])
      else None)"

definition sample_runtime :: runtime where
  "sample_runtime =
     \<lparr>json_loads = sample_json_loads,
      float_of_str = (\<lambda>s. if s = ''nan'' then Some NaN else None),
      repr = (\<lambda>v. ''?''),
      generate_pdf_report = (\<lambda>d. Inr ''%PDF'')\<rparr>"

definition sample_agent :: agent where
  "sample_agent =
     (InterviewAgent ''gemini-2.5-flash'' ''en'')
       \<lparr>memory := map (\<lambda>n. HumanMessage (replicate n CHR ''q'')) [0..<22]\<rparr>"


text \<open>Predicates on responses, templates and sessions, and a sample session through its
  first turn.\<close>

definition is_success :: "'a response \<Rightarrow> bool" where
  "is_success r = (case r of Success x \<Rightarrow> True | Failure c b \<Rightarrow> False)"


text \<open>The turn counter less the length of the history, when the session has both.\<close>

definition questions_minus_answers :: "session \<Rightarrow> int option" where
  "questions_minus_answers s =
     (case (question_count s, interview_history s) of
        (Some n, Some h) \<Rightarrow> Some (n - int (length h))
      | _ \<Rightarrow> None)"

definition sample_request :: start_request where
  "sample_request =
     \<lparr>req_role = Some ''Data Engineer'', req_difficulty = Some ''Easy'',
      req_model_id = Some ''gemini-2.5-flash'', req_language = Some ''en'',
      req_stt_mode = None, req_hinglish_mode = None\<rparr>"

definition session_uploaded :: session where
  "session_uploaded =
     session_clear\<lparr>resume_summary := Some ''Five years of data pipelines'',
                    api_keys := Some (None, Some ''key'')\<rparr>"

definition session_started :: session where
  "session_started =
     \<lparr>resume_summary = Some ''Five years of data pipelines'',
      api_keys = Some (None, Some ''key''), role = Some ''Data Engineer'',
      difficulty = Some ''Easy'', model_id = Some ''gemini-2.5-flash'',
      language = Some ''en'', stt_mode = Some ''browser'', hinglish_mode = Some False,
      interview_history = Some [], question_count = Some 0, current_question = None,
      last_rating = None\<rparr>"

definition llm_question :: llm where
  "llm_question = (\<lambda>k p. Content ''What is a primary key?'')"

definition session_asked :: session where
  "session_asked =
     session_started\<lparr>question_count := Some 1,
                      current_question := Some ''What is a primary key?''\<rparr>"

definition llm_good :: llm where
  "llm_good = (\<lambda>k p. Content text_good)"

definition first_turn :: history_entry where
  "first_turn =
     \<lparr>question = ''What is a primary key?'', answer = ''It identifies a row'',
      rating = Finite (41 / 5), strengths = ''clear'', improvements = ''depth'',
      missing_points = ''N/A''\<rparr>"

definition session_answered :: session where
  "session_answered =
     session_asked\<lparr>interview_history := Some [first_turn],
                    last_rating := Some (Finite (41 / 5)), difficulty := Some ''Medium''\<rparr>"


definition llm_fails :: llm where
  "llm_fails = (\<lambda>k p. Raises ModelCallError)"








subsection \<open>The difficulty controller\<close>

text \<open>
  C2. The difficulty after a scored answer is a function of the current difficulty and
  the rating, over the levels Easy, Medium, Hard in this order: a rating above 7 steps up one
  level (Hard stays), a rating below 4 steps down one level (Easy stays), and a rating from
  4 to 7, both bounds included, changes nothing. In particular Easy with 8.0 gives Medium,
  Hard with 9.0 gives Hard, Easy with 2.0 gives Easy and Medium with 5.5 gives Medium.
\<close>

theorem next_difficulty_levels:
  "(7 < r \<longrightarrow>
      next_difficulty ''Easy'' (Finite r) = Inr ''Medium'' \<and>
      next_difficulty ''Medium'' (Finite r) = Inr ''Hard'' \<and>
      next_difficulty ''Hard'' (Finite r) = Inr ''Hard'') \<and>
   (r < 4 \<longrightarrow>
      next_difficulty ''Easy'' (Finite r) = Inr ''Easy'' \<and>
      next_difficulty ''Medium'' (Finite r) = Inr ''Easy'' \<and>
      next_difficulty ''Hard'' (Finite r) = Inr ''Medium'') \<and>
   (4 \<le> r \<and> r \<le> 7 \<longrightarrow>
      next_difficulty ''Easy'' (Finite r) = Inr ''Easy'' \<and>
      next_difficulty ''Medium'' (Finite r) = Inr ''Medium'' \<and>
      next_difficulty ''Hard'' (Finite r) = Inr ''Hard'') \<and>
   next_difficulty ''Easy'' (Finite 8) = Inr ''Medium'' \<and>
   next_difficulty ''Hard'' (Finite 9) = Inr ''Hard'' \<and>
   next_difficulty ''Easy'' (Finite 2) = Inr ''Easy'' \<and>
   next_difficulty ''Medium'' (Finite (11 / 2)) = Inr ''Medium''"
  by (simp add: next_difficulty_def difficulty_order_def and_then_def pf_greater_def)

theorem next_difficulty_levels_witness:
  "(7::rat) < 41 / 5 \<and> next_difficulty ''Easy'' (Finite (41 / 5)) = Inr ''Medium'' \<and>
   (3::rat) < 4 \<and> next_difficulty ''Medium'' (Finite 3) = Inr ''Easy'' \<and>
   (4::rat) \<le> 7 \<and> next_difficulty ''Hard'' (Finite 7) = Inr ''Hard''"
  using next_difficulty_levels [of "41 / 5"] next_difficulty_levels [of 3]
    next_difficulty_levels [of 7]
  by simp

subsection \<open>The memory pruner\<close>

lemma generate_question_prunes:
  "take (length (memory (manage_memory_threshold ag)))
     (memory (snd (generate_question rt llm ag su rl di hist))) =
   memory (manage_memory_threshold ag)"
  by (simp add: generate_question_def Let_def invoke_def split: llm_response.splits)

text \<open>
  C5. Pruning the conversation memory is a first-in first-out eviction at a watermark: when
  more than 20 messages are stored, exactly the 10 oldest are removed and the others keep
  their order; 22 messages are pruned to the 12 most recent ones, in order; at most 20
  messages are left as they are. Generating a question prunes first: the memory it leaves
  starts with the pruned messages.
\<close>

theorem manage_memory_threshold_fifo:
  "(length (memory ag) > 20 \<longrightarrow>
      memory (manage_memory_threshold ag) = drop 10 (memory ag) \<and>
      length (memory (manage_memory_threshold ag)) = length (memory ag) - 10 \<and>
      memory ag = take 10 (memory ag) @ memory (manage_memory_threshold ag)) \<and>
   (length (memory ag) = 22 \<longrightarrow>
      length (memory (manage_memory_threshold ag)) = 12 \<and>
      memory (manage_memory_threshold ag) = drop (length (memory ag) - 12) (memory ag)) \<and>
   (length (memory ag) \<le> 20 \<longrightarrow> manage_memory_threshold ag = ag) \<and>
   take (length (memory (manage_memory_threshold ag)))
     (memory (snd (generate_question rt llm ag su rl di hist))) =
   memory (manage_memory_threshold ag)"
proof -
  have "(length (memory ag) > 20 \<longrightarrow>
      memory (manage_memory_threshold ag) = drop 10 (memory ag) \<and>
      length (memory (manage_memory_threshold ag)) = length (memory ag) - 10 \<and>
      memory ag = take 10 (memory ag) @ memory (manage_memory_threshold ag)) \<and>
   (length (memory ag) = 22 \<longrightarrow>
      length (memory (manage_memory_threshold ag)) = 12 \<and>
      memory (manage_memory_threshold ag) = drop (length (memory ag) - 12) (memory ag)) \<and>
   (length (memory ag) \<le> 20 \<longrightarrow> manage_memory_threshold ag = ag)"
    by (simp add: manage_memory_threshold_def Let_def)
  then show ?thesis
    using generate_question_prunes [of ag rt llm su rl di hist] by blast
qed

theorem manage_memory_threshold_fifo_witness:
  "length (memory sample_agent) = 22 \<and>
   memory (manage_memory_threshold sample_agent) =
     map (\<lambda>n. HumanMessage (replicate n CHR ''q'')) [10..<22] \<and>
   length (memory (InterviewAgent ''m'' ''en'')) \<le> 20 \<and>
   manage_memory_threshold (InterviewAgent ''m'' ''en'') = InterviewAgent ''m'' ''en''"
  using manage_memory_threshold_fifo [of sample_agent]
    manage_memory_threshold_fifo [of "InterviewAgent ''m'' ''en''"]
  by (simp add: sample_agent_def InterviewAgent_def drop_map)

subsection \<open>The fallback evaluation\<close>

lemma attempts_range: "[0..<max_retries] = [0, 1]"
  by (simp add: max_retries_def upt_rec)

text \<open>When the text of both attempts fails with a parsing error, the agent returns the
  fallback, whatever the question, the model and the language are.\<close>

lemma evaluate_answer_fallback:
  assumes "\<And>k p. \<exists>c e. llm k p = Content c \<and> parse_response rt c = Inl e \<and> is_value_error e"
  shows "fst (evaluate_answer rt llm ag q ans) = Inr (Some (fallback_evaluation ans))"
proof -
  let ?p = "Prompt (evaluation_template (agent_language ag) (agent_model_id ag))
              [(''question'', q), (''answer'', ans)]"
  obtain c0 e0 where c0: "llm (invocations ag) ?p = Content c0"
      "parse_response rt c0 = Inl e0" "is_value_error e0"
    using assms by blast
  obtain c1 e1 where c1: "llm (Suc (invocations ag)) ?p = Content c1"
      "parse_response rt c1 = Inl e1" "is_value_error e1"
    using assms by blast
  show ?thesis
    unfolding evaluate_answer_def attempts_range Let_def
    by (simp add: invoke_def c0 c1 max_retries_def)
qed


subsection \<open>Answering without a question\<close>



subsection \<open>The response normalizer\<close>










































lemmas evaluation_defs = invoke_def InterviewAgent_def
  parse_response_def strip_code_fences_def strip_def isspace_def repair_truncated_def
  endswith_def dquote_def rfind_def rfind_before_def slice_to_def
  sample_runtime_def sample_json_loads_def text_good_def text_five_def text_nan_def
  process_evaluation_def normalize_missing_points_def default_missing_points_def
  required_fields_def set_stripped_def fix_rating_def clamp_rating_def py_float_def
  py_in_def py_getitem_def py_setitem_def py_str_def and_then_def
  pf_greater_def py_min_def py_max_def max_retries_def is_value_error_def
  evaluation_template_def lower_def lower_char_def



text \<open>
  C4. A record that passes parsing and the check of its fields should come back with a rating
  in [1.00, 10.00], rounded to two decimals. The guard \<open>rating < 1.0 or rating > 10.0\<close> is
  false for \<open>NaN\<close>, which \<open>json.loads\<close> accepts: the rating \<open>NaN\<close> is returned as it is.
\<close>

theorem rating_nan_returned:
  "fst (evaluate_answer sample_runtime (\<lambda>k p. Content text_nan)
          (InterviewAgent ''gemini-2.5-flash'' ''en'') ''Q'' ''A'') =
     Inr (Some (JObj [(''rating'', JFloat NaN), (''strengths'', JStr ''clear''),
                      (''improvements'', JStr ''depth''), (''missing_points'', JStr ''N/A'')])) \<and>
   \<not> rating_in_range NaN \<and>
   fix_rating rt (JFloat NaN) = Inr NaN"
  unfolding evaluate_answer_def attempts_range Let_def
  by (simp add: evaluation_defs)

subsection \<open>The session: questions, answers and the report\<close>

text \<open>What the routes leave unchanged, and what a successful request has done.\<close>

lemma evaluate_body_frame:
  "current_question (snd (evaluate_body rt llm s q ans)) = current_question s \<and>
   question_count (snd (evaluate_body rt llm s q ans)) = question_count s \<and>
   language (snd (evaluate_body rt llm s q ans)) = language s \<and>
   model_id (snd (evaluate_body rt llm s q ans)) = model_id s \<and>
   hinglish_mode (snd (evaluate_body rt llm s q ans)) = hinglish_mode s \<and>
   resume_summary (snd (evaluate_body rt llm s q ans)) = resume_summary s \<and>
   api_keys (snd (evaluate_body rt llm s q ans)) = api_keys s \<and>
   role (snd (evaluate_body rt llm s q ans)) = role s"
  by (simp add: evaluate_body_def Let_def split: option.splits sum.splits)

lemma evaluate_route_frame:
  "current_question (snd (evaluate_answer_route rt llm s data)) = current_question s \<and>
   question_count (snd (evaluate_answer_route rt llm s data)) = question_count s \<and>
   language (snd (evaluate_answer_route rt llm s data)) = language s \<and>
   model_id (snd (evaluate_answer_route rt llm s data)) = model_id s \<and>
   hinglish_mode (snd (evaluate_answer_route rt llm s data)) = hinglish_mode s \<and>
   resume_summary (snd (evaluate_answer_route rt llm s data)) = resume_summary s \<and>
   api_keys (snd (evaluate_answer_route rt llm s data)) = api_keys s \<and>
   role (snd (evaluate_answer_route rt llm s data)) = role s"
proof (cases data)
  case None
  then show ?thesis by (simp add: evaluate_answer_route_def)
next
  case (Some ans)
  show ?thesis
  proof (cases "current_question s")
    case None
    then show ?thesis using Some by (simp add: evaluate_answer_route_def)
  next
    case (Some q)
    obtain r s1 where b: "evaluate_body rt llm s q ans = (r, s1)" by (cases "evaluate_body rt llm s q ans")
    have "snd (evaluate_answer_route rt llm s data) = s1"
      using \<open>data = Some ans\<close> Some b by (cases r) (simp_all add: evaluate_answer_route_def)
    then show ?thesis using evaluate_body_frame[of rt llm s q ans] b by simp
  qed
qed

lemma history_entry_of_fields:
  "history_entry_of q ans ev = Inr e \<Longrightarrow>
     question e = q \<and> answer e = ans \<and> py_getitem ev ''rating'' = Inr (JFloat (rating e))"
  by (auto simp: history_entry_of_def and_then_def Let_def split: sum.splits json.splits)

lemma evaluate_body_success:
  assumes "evaluate_body rt llm s q ans = (Inr reply, s')"
  shows "\<exists>entry d. interview_history s' =
            Some ((case interview_history s of None \<Rightarrow> [] | Some h \<Rightarrow> h) @ [entry]) \<and>
          total_questions reply = length (case interview_history s of None \<Rightarrow> [] | Some h \<Rightarrow> h) + 1 \<and>
          question entry = q \<and> answer entry = ans \<and>
          last_rating s' = Some (rating entry) \<and>
          difficulty s = Some d \<and> previous_difficulty reply = d \<and>
          next_difficulty d (rating entry) = Inr (updated_difficulty reply) \<and>
          difficulty s' = Some (updated_difficulty reply)"
  using assms
  by (auto simp: evaluate_body_def Let_def dest: history_entry_of_fields
      split: option.splits sum.splits)

lemma evaluate_route_success:
  assumes "evaluate_answer_route rt llm s data = (Success reply, s')"
  shows "\<exists>q ans. data = Some ans \<and> current_question s = Some q \<and>
           evaluate_body rt llm s q ans = (Inr reply, s')"
  using assms
  by (auto simp: evaluate_answer_route_def split: option.splits sum.splits prod.splits)

lemma next_question_frame:
  "interview_history (snd (get_next_question rt llm s)) = interview_history s \<and>
   language (snd (get_next_question rt llm s)) = language s \<and>
   model_id (snd (get_next_question rt llm s)) = model_id s \<and>
   hinglish_mode (snd (get_next_question rt llm s)) = hinglish_mode s \<and>
   difficulty (snd (get_next_question rt llm s)) = difficulty s"
  by (simp add: get_next_question_def Let_def split: option.splits sum.splits)

lemma next_question_success:
  assumes "get_next_question rt llm s = (Success reply, s')"
  shows "current_question s' = Some (reply_question reply) \<and>
         question_count s' = Some ((case question_count s of None \<Rightarrow> 0 | Some k \<Rightarrow> k) + 1) \<and>
         question_number reply = (case question_count s of None \<Rightarrow> 0 | Some k \<Rightarrow> k) + 1 \<and>
         s' = s\<lparr>current_question := current_question s', question_count := question_count s'\<rparr>"
  using assms
  by (auto simp: get_next_question_def Let_def split: option.splits sum.splits)

lemma next_question_failure:
  assumes "get_next_question rt llm s = (Failure c b, s')"
  shows "s' = s"
  using assms
  by (auto simp: get_next_question_def Let_def split: option.splits sum.splits)

lemma start_interview_success:
  assumes "start_interview s d = (Success c, s')"
  shows "interview_history s' = Some [] \<and> question_count s' = Some 0 \<and>
         current_question s' = current_question s \<and>
         language s' = (if req_hinglish_mode d = Some True then Some ''hi'' else req_language d) \<and>
         hinglish_mode s' = Some (req_hinglish_mode d = Some True) \<and>
         model_id s' = req_model_id d \<and> difficulty s' = req_difficulty d"
  using assms
  by (auto simp: start_interview_def Let_def split: option.splits if_splits)

text \<open>The sample session, step by step.\<close>

lemmas session_defs = session_uploaded_def session_started_def session_asked_def
  session_answered_def session_clear_def sample_request_def first_turn_def

lemmas llm_defs = llm_question_def llm_good_def llm_fails_def

lemma sample_start:
  "start_interview session_uploaded sample_request =
     (Success \<lparr>config_role = ''Data Engineer'', config_difficulty = ''Easy'',
               config_model = ''gemini-2.5-flash'', config_language = ''en''\<rparr>,
      session_started)"
  by (simp add: start_interview_def session_defs)

lemma sample_next:
  "get_next_question sample_runtime llm_question session_started =
     (Success \<lparr>reply_question = ''What is a primary key?'', question_number = 1,
               reply_language = ''en''\<rparr>,
      session_asked)"
  by (simp add: get_next_question_def generate_question_def session_defs llm_defs Let_def
      InterviewAgent_def manage_memory_threshold_def invoke_def strip_def isspace_def
      shown_language_def)

lemma sample_evaluate:
  "evaluate_answer_route sample_runtime llm_good session_asked (Some ''It identifies a row'') =
     (Success \<lparr>evaluation =
                 JObj [(''rating'', JFloat (Finite (41 / 5))), (''strengths'', JStr ''clear''),
                       (''improvements'', JStr ''depth''), (''missing_points'', JStr ''N/A'')],
               updated_difficulty = ''Medium'', previous_difficulty = ''Easy'',
               total_questions = 1, evaluate_language = ''en''\<rparr>,
      session_answered)"
proof -
  have e: "fst (evaluate_answer sample_runtime llm_good
                  (InterviewAgent ''gemini-2.5-flash'' ''en'') ''What is a primary key?''
                  ''It identifies a row'') =
           Inr (Some (JObj [(''rating'', JFloat (Finite (41 / 5))), (''strengths'', JStr ''clear''),
                       (''improvements'', JStr ''depth''), (''missing_points'', JStr ''N/A'')]))"
    unfolding evaluate_answer_def attempts_range Let_def llm_good_def
    by (simp add: evaluation_defs round2_def round_half_even_def)
  show ?thesis
    by (simp add: evaluate_answer_route_def evaluate_body_def session_defs e
        history_entry_of_def py_getitem_def and_then_def Let_def next_difficulty_def
        difficulty_order_def pf_greater_def shown_language_def)
qed

text \<open>
  C6, as the code has it. The session has one slot for the current question. A question
  that is generated replaces what the slot holds. An answer is evaluated only while the slot
  is filled, and evaluating it never clears or changes the slot: after a recorded answer the
  same question is still the current one, until the next question replaces it.
\<close>

theorem pending_question_slot:
  "current_question (snd (evaluate_answer_route rt llm s data)) = current_question s \<and>
   (is_success (fst (evaluate_answer_route rt llm s data)) \<longrightarrow> current_question s \<noteq> None) \<and>
   (is_success (fst (get_next_question rt llm s)) \<longrightarrow>
      (\<exists>q. current_question (snd (get_next_question rt llm s)) = Some q \<and>
           (\<forall>reply. fst (get_next_question rt llm s) = Success reply \<longrightarrow> reply_question reply = q)))"
proof (intro conjI impI)
  show "current_question (snd (evaluate_answer_route rt llm s data)) = current_question s"
    using evaluate_route_frame[of rt llm s data] by simp
next
  assume "is_success (fst (evaluate_answer_route rt llm s data))"
  then obtain reply s' where "evaluate_answer_route rt llm s data = (Success reply, s')"
    by (cases "evaluate_answer_route rt llm s data"; cases "fst (evaluate_answer_route rt llm s data)")
       (auto simp: is_success_def)
  then show "current_question s \<noteq> None"
    using evaluate_route_success by fastforce
next
  assume "is_success (fst (get_next_question rt llm s))"
  then obtain reply s' where n: "get_next_question rt llm s = (Success reply, s')"
    by (cases "get_next_question rt llm s"; cases "fst (get_next_question rt llm s)")
       (auto simp: is_success_def)
  then show "\<exists>q. current_question (snd (get_next_question rt llm s)) = Some q \<and>
           (\<forall>reply. fst (get_next_question rt llm s) = Success reply \<longrightarrow> reply_question reply = q)"
    using next_question_success[OF n] by simp
qed

lemma sample_questions:
  "current_question session_asked = Some ''What is a primary key?''"
  "current_question session_answered = Some ''What is a primary key?''"
  "question_count session_asked = Some 1" "interview_history session_asked = Some []"
  by (simp_all add: session_defs)

theorem pending_question_slot_witness:
  "is_success (fst (evaluate_answer_route sample_runtime llm_good session_asked
                     (Some ''It identifies a row''))) \<and>
   current_question (snd (evaluate_answer_route sample_runtime llm_good session_asked
                     (Some ''It identifies a row''))) = current_question session_asked \<and>
   current_question session_asked \<noteq> None \<and>
   is_success (fst (get_next_question sample_runtime llm_question session_started)) \<and>
   current_question (snd (get_next_question sample_runtime llm_question session_started)) =
     Some ''What is a primary key?''"
  using pending_question_slot [of sample_runtime llm_good session_asked
      "Some ''It identifies a row''"]
    pending_question_slot [of sample_runtime llm_question session_started]
  by (simp add: sample_evaluate sample_next is_success_def sample_questions)

text \<open>
  The claim C6 as it is written fails: no line of the route removes \<open>current_question\<close>, and
  after the first answer of the sample session the question is still there.
\<close>

theorem question_stays_pending_counterexample:
  "is_success (fst (evaluate_answer_route sample_runtime llm_good session_asked
                     (Some ''It identifies a row''))) \<and>
   current_question (snd (evaluate_answer_route sample_runtime llm_good session_asked
                     (Some ''It identifies a row''))) = Some ''What is a primary key?''"
  by (simp add: sample_evaluate is_success_def sample_questions)

text \<open>
  C8, as the code has it. The counter counts the questions issued and the history the
  answers evaluated. Starting the interview sets the counter to 0 and empties the history;
  a question that is generated adds one to the counter and leaves the history as it is; a
  recorded answer appends one entry to the history and never changes the counter. So the
  counter less the length of the history grows by one with each question and shrinks by one
  with each recorded answer: it is 1 while a question waits for its answer, and 0 again after
  the answer when questions and answers alternate.
\<close>

theorem question_count_and_history:
  "(start_interview s d = (Success c, s') \<longrightarrow>
      question_count s' = Some 0 \<and> interview_history s' = Some [] \<and>
      questions_minus_answers s' = Some 0) \<and>
   (get_next_question rt llm s = (Success qr, s') \<longrightarrow>
      question_count s' = Some ((case question_count s of None \<Rightarrow> 0 | Some k \<Rightarrow> k) + 1) \<and>
      interview_history s' = interview_history s \<and>
      (questions_minus_answers s = Some n \<longrightarrow> questions_minus_answers s' = Some (n + 1))) \<and>
   (evaluate_answer_route rt llm s data = (Success er, s') \<longrightarrow>
      question_count s' = question_count s \<and>
      (\<exists>entry. interview_history s' =
         Some ((case interview_history s of None \<Rightarrow> [] | Some h \<Rightarrow> h) @ [entry])) \<and>
      (questions_minus_answers s = Some n \<longrightarrow> questions_minus_answers s' = Some (n - 1))) \<and>
   question_count (snd (evaluate_answer_route rt llm s data)) = question_count s \<and>
   interview_history (snd (get_next_question rt llm s)) = interview_history s"
proof (intro conjI impI)
  assume "start_interview s d = (Success c, s')"
  from start_interview_success[OF this]
  show "question_count s' = Some 0" "interview_history s' = Some []"
    "questions_minus_answers s' = Some 0"
    by (simp_all add: questions_minus_answers_def)
next
  assume n: "get_next_question rt llm s = (Success qr, s')"
  have h: "interview_history s' = interview_history s"
    using next_question_frame[of rt llm s] n by simp
  then show "interview_history s' = interview_history s" .
  show c: "question_count s' = Some ((case question_count s of None \<Rightarrow> 0 | Some k \<Rightarrow> k) + 1)"
    using next_question_success[OF n] by simp
  assume "questions_minus_answers s = Some n"
  then show "questions_minus_answers s' = Some (n + 1)"
    using h c by (auto simp: questions_minus_answers_def split: option.splits)
next
  assume e: "evaluate_answer_route rt llm s data = (Success er, s')"
  have c: "question_count s' = question_count s"
    using evaluate_route_frame[of rt llm s data] e by simp
  then show "question_count s' = question_count s" .
  obtain q ans where b: "evaluate_body rt llm s q ans = (Inr er, s')"
    using evaluate_route_success[OF e] by blast
  from evaluate_body_success[OF b] obtain entry where
    h: "interview_history s' = Some ((case interview_history s of None \<Rightarrow> [] | Some h \<Rightarrow> h) @ [entry])"
    by blast
  then show "\<exists>entry. interview_history s' =
         Some ((case interview_history s of None \<Rightarrow> [] | Some h \<Rightarrow> h) @ [entry])" by blast
  assume "questions_minus_answers s = Some n"
  then show "questions_minus_answers s' = Some (n - 1)"
    using h c by (auto simp: questions_minus_answers_def split: option.splits)
next
  show "question_count (snd (evaluate_answer_route rt llm s data)) = question_count s"
    using evaluate_route_frame[of rt llm s data] by simp
  show "interview_history (snd (get_next_question rt llm s)) = interview_history s"
    using next_question_frame[of rt llm s] by simp
qed

theorem question_count_and_history_witness:
  "questions_minus_answers session_started = Some 0 \<and>
   questions_minus_answers session_asked = Some 1 \<and>
   questions_minus_answers session_answered = Some 0 \<and>
   question_count session_answered = Some 1 \<and>
   interview_history session_answered = Some [first_turn]"
  using question_count_and_history [where s = session_uploaded and d = sample_request
      and s' = session_started
      and c = "\<lparr>config_role = ''Data Engineer'', config_difficulty = ''Easy'',
               config_model = ''gemini-2.5-flash'', config_language = ''en''\<rparr>"]
    question_count_and_history [where s = session_started and s' = session_asked
      and rt = sample_runtime and llm = llm_question and n = 0
      and qr = "\<lparr>reply_question = ''What is a primary key?'', question_number = 1,
               reply_language = ''en''\<rparr>"]
    question_count_and_history [where s = session_asked and s' = session_answered
      and rt = sample_runtime and llm = llm_good and n = 1
      and data = "Some ''It identifies a row''"
      and er = "\<lparr>evaluation =
                 JObj [(''rating'', JFloat (Finite (41 / 5))), (''strengths'', JStr ''clear''),
                       (''improvements'', JStr ''depth''), (''missing_points'', JStr ''N/A'')],
               updated_difficulty = ''Medium'', previous_difficulty = ''Easy'',
               total_questions = 1, evaluate_language = ''en''\<rparr>"]
  by (simp add: sample_start sample_next sample_evaluate)
     (simp add: session_defs)

text \<open>
  The claim C8 as it is written fails: after the first question the counter is 1 and the
  history is empty.
\<close>

theorem counter_differs_from_history_counterexample:
  "is_success (fst (get_next_question sample_runtime llm_question session_started)) \<and>
   question_count (snd (get_next_question sample_runtime llm_question session_started)) = Some 1 \<and>
   interview_history (snd (get_next_question sample_runtime llm_question session_started)) = Some []"
  by (simp add: sample_next is_success_def sample_questions)
















end
